theory Spec2Isabelle
  imports Complex_Main
begin

section \<open>Data model (package mcp)\<close>

text \<open>
  A Go value of static type \<^verbatim>\<open>any\<close>, as the elicitation request and response
  carry it and as a type assertion inspects it: the nil interface, a string, an
  \<^verbatim>\<open>int\<close>, a \<^verbatim>\<open>[]string\<close>, a \<^verbatim>\<open>map[string]any\<close> (an association list, looked
  up with \<open>map_of\<close>), or a value of some other dynamic type, of which only the name
  of the type is kept (what \<^verbatim>\<open>%T\<close> prints).
\<close>

datatype dyn =
    DynNil
  | DynString string
  | DynInt int
  | DynStrings "string list"
  | DynMap "(string \<times> dyn) list"
  | DynOther string

datatype Content = TextContent string | OtherContent string

text \<open>
  Modelled from the spec: the struct \<^verbatim>\<open>mcp.CallToolResult\<close> is declared outside the
  files at hand. The Immediate Result is an ordered sequence of content blocks, an
  optional structured payload and an error flag; the zero value
  \<^verbatim>\<open>mcp.CallToolResult{}\<close> has no content, no payload and the flag unset.
\<close>

record CallToolResult =
  Content :: "Content list"
  StructuredContent :: dyn
  IsError :: bool

definition zeroCallToolResult :: CallToolResult where
  "zeroCallToolResult = \<lparr>Content = [], StructuredContent = DynNil, IsError = False\<rparr>"

text \<open>
  Modelled from the spec: the struct \<^verbatim>\<open>mcp.CreateTaskResult\<close> (the Task Handle) is an
  opaque task identifier with a status snapshot taken at creation.
\<close>

record CreateTaskResult =
  TaskId :: string
  Status :: string

text \<open>
  The dynamic value held by the interface \<^verbatim>\<open>mcp.AnyToolResult\<close>. The type switches of
  the code tell apart a \<^verbatim>\<open>CallToolResult\<close> held by value, a \<^verbatim>\<open>CreateTaskResult\<close>
  held by value, and everything else: a pointer \<^verbatim>\<open>*CallToolResult\<close> (which
  \<^verbatim>\<open>NewStructuredTaskToolHandler\<close> stores), the nil interface, any other type.
\<close>

datatype AnyToolResult =
    AnyCallToolResult CallToolResult
  | AnyCreateTaskResult CreateTaskResult
  | AnyCallToolResultPtr "CallToolResult option"
  | AnyNilInterface
  | AnyOtherType string

text \<open>
  The dynamic value held by the interface \<^verbatim>\<open>mcp.TaskPayloadResult\<close>. A pointer may be
  a typed nil, hence the \<open>option\<close>.
\<close>

datatype TaskPayloadResult =
    PayloadCallToolResultPtr "CallToolResult option"
  | PayloadCallToolResult CallToolResult
  | PayloadCreateTaskResultPtr "CreateTaskResult option"
  | PayloadCreateTaskResult CreateTaskResult
  | PayloadNilInterface
  | PayloadOtherType string

text \<open>
  Go errors: the two sentinel values of package server that the code at hand returns,
  and errors built from a message (\<^verbatim>\<open>fmt.Errorf\<close>, or whatever a collaborator returns).
  A nil error is \<open>None\<close> of \<open>error option\<close>.
\<close>

datatype error =
    ErrInvalidToolResult
  | ErrInvalidResultPayload
  | Errorf string

section \<open>Validators (server/task\_tool.go)\<close>

text \<open>The argument is a pointer to the interface value: \<open>None\<close> is the nil pointer.\<close>

fun ValidateAnyToolResult :: "AnyToolResult option \<Rightarrow> error option" where
  "ValidateAnyToolResult None = Some ErrInvalidToolResult"
| "ValidateAnyToolResult (Some (AnyCallToolResult r)) = None"
| "ValidateAnyToolResult (Some (AnyCreateTaskResult t)) = None"
| "ValidateAnyToolResult (Some v) = Some ErrInvalidToolResult"

fun ValidateTaskPayload :: "TaskPayloadResult \<Rightarrow> error option" where
  "ValidateTaskPayload (PayloadCallToolResultPtr p) = None"
| "ValidateTaskPayload v = Some ErrInvalidResultPayload"

text \<open>The two legal shapes of a Result Variant, and the legal shape of a task payload.\<close>

fun isImmediateResult :: "AnyToolResult \<Rightarrow> bool" where
  "isImmediateResult (AnyCallToolResult r) = True"
| "isImmediateResult v = False"

fun isTaskHandle :: "AnyToolResult \<Rightarrow> bool" where
  "isTaskHandle (AnyCreateTaskResult t) = True"
| "isTaskHandle v = False"

fun isImmediatePayload :: "TaskPayloadResult \<Rightarrow> bool" where
  "isImmediatePayload (PayloadCallToolResultPtr p) = True"
| "isImmediatePayload v = False"

section \<open>Handlers and legacy middleware\<close>

text \<open>
  A handler returns a pair of a pointer and an error, either of which may be nil. It
  runs in a world \<open>'w\<close>: everything the handlers and the middleware of a server can
  read and write, passed in and returned. The type \<open>'q\<close> stands for what a handler
  is called with, the context and the request.
\<close>

type_synonym legacy_out = "CallToolResult option \<times> error option"
type_synonym any_out = "AnyToolResult option \<times> error option"
type_synonym ('q, 'w) ToolHandlerFunc = "'q \<Rightarrow> 'w \<Rightarrow> legacy_out \<times> 'w"
type_synonym ('q, 'w) TaskToolHandlerFunc = "'q \<Rightarrow> 'w \<Rightarrow> any_out \<times> 'w"

text \<open>
  A legacy middleware (\<^verbatim>\<open>ToolHandlerMiddleware\<close>) is code of the server's user: given
  the handler it wraps, it yields a handler that may call the wrapped one any number of
  times, with requests of its choice, may change the world in between, and at last
  returns a result of its own. One call of such a handler is the tree of its possible
  runs: it returns (\<open>Return\<close>), or it calls the wrapped handler and goes on from what
  that returned and the world it left (\<open>CallNext\<close>). The middleware has no access to
  the variables the wrapped handler has captured.
\<close>

datatype ('q, 'w) legacy_run =
    Return legacy_out 'w
  | CallNext 'q 'w "legacy_out \<Rightarrow> 'w \<Rightarrow> ('q, 'w) legacy_run"

type_synonym ('q, 'w) ToolHandlerMiddleware = "'q \<Rightarrow> 'w \<Rightarrow> ('q, 'w) legacy_run"

text \<open>
  Running a middleware's tree over a wrapped handler \<open>h\<close> whose captured variables
  are \<open>'p\<close>: only \<open>h\<close> reads and writes them.
\<close>

primrec apply_middleware ::
  "('q \<Rightarrow> 'p \<times> 'w \<Rightarrow> legacy_out \<times> 'p \<times> 'w) \<Rightarrow> ('q, 'w) legacy_run \<Rightarrow> 'p
     \<Rightarrow> legacy_out \<times> 'p \<times> 'w" where
  "apply_middleware h (Return out w) p = (out, p, w)"
| "apply_middleware h (CallNext q w k) p =
     (case h q (p, w) of (out, p', w') \<Rightarrow> apply_middleware h (k out w') p')"

text \<open>The middleware that calls the wrapped handler once and returns what it returned.\<close>

definition pass_through :: "('q, 'w) ToolHandlerMiddleware" where
  "pass_through request w = CallNext request w (\<lambda>out w'. Return out w')"

text \<open>Calling a handler on one request after the other, from left to right.\<close>

fun invoke_all :: "('q \<Rightarrow> 's \<Rightarrow> 'o \<times> 's) \<Rightarrow> 'q list \<Rightarrow> 's \<Rightarrow> 'o list \<times> 's" where
  "invoke_all h [] s = ([], s)"
| "invoke_all h (q # qs) s =
     (case h q s of (out, s') \<Rightarrow>
      (case invoke_all h qs s' of (outs, s'') \<Rightarrow> (out # outs, s'')))"

section \<open>The middleware adaptor (server/task\_tool.go)\<close>

text \<open>
  \<^verbatim>\<open>NewTaskToolHandlerMiddlewareAdaptor(targetMiddleware)(next)\<close> allocates the slot
  \<^verbatim>\<open>taskResult\<close> (a pointer to a nil \<^verbatim>\<open>*CreateTaskResult\<close>) once, when \<open>next\<close> is
  wrapped, and returns a closure that every later call runs. The state of the adapted
  handler is therefore the pair of the slot and the world; \<open>newTaskResult\<close> is the slot
  as line 49 leaves it.
\<close>

definition newTaskResult :: "CreateTaskResult option" where
  "newTaskResult = None"

text \<open>
  The closure handed to the legacy middleware (lines 50 to 65): it calls \<open>next\<close>,
  passes an error or a \<^verbatim>\<open>CallToolResult\<close> through, stores a \<^verbatim>\<open>CreateTaskResult\<close> in
  the slot, and in every case but the first two returns a pointer to the zero
  \<^verbatim>\<open>CallToolResult\<close>.
\<close>

definition legacyNext ::
  "('q, 'w) TaskToolHandlerFunc \<Rightarrow> 'q \<Rightarrow> CreateTaskResult option \<times> 'w
     \<Rightarrow> legacy_out \<times> CreateTaskResult option \<times> 'w" where
  "legacyNext next request s =
     (case s of (taskResult, w) \<Rightarrow>
      (case next request w of ((anyResult, err), w') \<Rightarrow>
       (case err of
          Some e \<Rightarrow> ((None, Some e), taskResult, w')
        | None \<Rightarrow>
           (case anyResult of
              Some (AnyCallToolResult nextResult) \<Rightarrow>
                ((Some nextResult, None), taskResult, w')
            | Some (AnyCreateTaskResult nextResult) \<Rightarrow>
                ((Some zeroCallToolResult, None), Some nextResult, w')
            | _ \<Rightarrow> ((Some zeroCallToolResult, None), taskResult, w')))))"

text \<open>The closure returned for \<open>next\<close> (lines 66 to 80).\<close>

definition NewTaskToolHandlerMiddlewareAdaptor ::
  "('q, 'w) ToolHandlerMiddleware \<Rightarrow> ('q, 'w) TaskToolHandlerFunc
     \<Rightarrow> 'q \<Rightarrow> CreateTaskResult option \<times> 'w
     \<Rightarrow> any_out \<times> CreateTaskResult option \<times> 'w" where
  "NewTaskToolHandlerMiddlewareAdaptor targetMiddleware next request s =
     (case s of (taskResult, w) \<Rightarrow>
      (case apply_middleware (legacyNext next) (targetMiddleware request w) taskResult of
         ((result, err), taskResult', w') \<Rightarrow>
           (case err of
              Some e \<Rightarrow> ((None, Some e), taskResult', w')
            | None \<Rightarrow>
               (case taskResult' of
                  Some t \<Rightarrow> ((Some (AnyCreateTaskResult t), None), taskResult', w')
                | None \<Rightarrow>
                   (case result of
                      None \<Rightarrow> ((None, Some ErrInvalidToolResult), taskResult', w')
                    | Some r \<Rightarrow> ((Some (AnyCallToolResult r), None), taskResult', w'))))))"

text \<open>
  What \<open>next\<close> returned, call after call, while the middleware's tree ran: an
  observation of the run, which the code does not compute.
\<close>

primrec next_returns ::
  "('q, 'w) TaskToolHandlerFunc \<Rightarrow> ('q, 'w) legacy_run \<Rightarrow> CreateTaskResult option
     \<Rightarrow> any_out list" where
  "next_returns next (Return out w) p = []"
| "next_returns next (CallNext q w k) p =
     fst (next q w) #
       (case legacyNext next q (p, w) of (out, p', w') \<Rightarrow> next_returns next (k out w') p')"

text \<open>The Task Handles among these returns: a \<^verbatim>\<open>CreateTaskResult\<close> with a nil error.\<close>

fun task_handles :: "any_out list \<Rightarrow> CreateTaskResult list" where
  "task_handles [] = []"
| "task_handles ((Some (AnyCreateTaskResult t), None) # xs) = t # task_handles xs"
| "task_handles (x # xs) = task_handles xs"

section \<open>The hook adaptor (server/task\_tool.go)\<close>

text \<open>
  \<^verbatim>\<open>NewTaskToolAfterHookAdaptor(hooks)\<close>. The method \<^verbatim>\<open>hooks.afterCallTool\<close> is declared
  outside the files at hand and is a parameter here: what it does to the state \<open>'h\<close>
  of the hooks when called with an id, a message and a pointer to a
  \<^verbatim>\<open>CallToolResult\<close>. The adaptor calls it on a non-nil pointer to an interface that
  holds a \<^verbatim>\<open>CallToolResult\<close> by value, and does nothing otherwise.
\<close>

definition NewTaskToolAfterHookAdaptor ::
  "('i \<Rightarrow> 'q \<Rightarrow> CallToolResult \<Rightarrow> 'h \<Rightarrow> 'h) \<Rightarrow> 'i \<Rightarrow> 'q \<Rightarrow> AnyToolResult option
     \<Rightarrow> 'h \<Rightarrow> 'h" where
  "NewTaskToolAfterHookAdaptor afterCallTool id' message result h =
     (case result of
        Some (AnyCallToolResult callToolResult) \<Rightarrow> afterCallTool id' message callToolResult h
      | _ \<Rightarrow> h)"

text \<open>A legacy after-call hook that appends each call it receives to a list.\<close>

definition record_call ::
  "'i \<Rightarrow> 'q \<Rightarrow> CallToolResult \<Rightarrow> ('i \<times> 'q \<times> CallToolResult) list
     \<Rightarrow> ('i \<times> 'q \<times> CallToolResult) list" where
  "record_call id' message result calls = calls @ [(id', message, result)]"

section \<open>The typed handler binder (package mcp)\<close>

text \<open>
  Modelled from the spec: \<^verbatim>\<open>NewToolResultError\<close> is declared outside the files at hand;
  it builds the Immediate Result flagged as an error whose content is the given text.
\<close>

definition NewToolResultError :: "string \<Rightarrow> CallToolResult" where
  "NewToolResultError text =
     \<lparr>Content = [TextContent text], StructuredContent = DynNil, IsError = True\<rparr>"

text \<open>
  \<^verbatim>\<open>NewTypedToolHandler\<close> and \<^verbatim>\<open>NewTypedTaskToolHandler\<close>. Two collaborators are
  parameters: \<open>BindArguments\<close>, which binds the request's arguments into the declared
  type \<open>'a\<close> or fails with an error, and \<open>Error\<close>, the text of an error as
  \<^verbatim>\<open>%v\<close> prints it.
\<close>

definition NewTypedToolHandler ::
  "('q \<Rightarrow> error + 'a) \<Rightarrow> (error \<Rightarrow> string) \<Rightarrow> ('q \<Rightarrow> 'a \<Rightarrow> 'w \<Rightarrow> legacy_out \<times> 'w)
     \<Rightarrow> ('q, 'w) ToolHandlerFunc" where
  "NewTypedToolHandler BindArguments Error handler request w =
     (case BindArguments request of
        Inl err \<Rightarrow>
          ((Some (NewToolResultError (''failed to bind arguments: '' @ Error err)), None), w)
      | Inr args \<Rightarrow> handler request args w)"

definition NewTypedTaskToolHandler ::
  "('q \<Rightarrow> error + 'a) \<Rightarrow> (error \<Rightarrow> string) \<Rightarrow> ('q \<Rightarrow> 'a \<Rightarrow> 'w \<Rightarrow> any_out \<times> 'w)
     \<Rightarrow> ('q, 'w) TaskToolHandlerFunc" where
  "NewTypedTaskToolHandler BindArguments Error handler request w =
     (case BindArguments request of
        Inl err \<Rightarrow>
          ((Some (AnyCallToolResult
                    (NewToolResultError (''failed to bind arguments: '' @ Error err))), None), w)
      | Inr args \<Rightarrow> handler request args w)"

text \<open>A typed handler made to count, in the world, the calls it receives.\<close>

definition counting ::
  "('q \<Rightarrow> 'a \<Rightarrow> 'w \<Rightarrow> 'o \<times> 'w) \<Rightarrow> 'q \<Rightarrow> 'a \<Rightarrow> nat \<times> 'w \<Rightarrow> 'o \<times> nat \<times> 'w" where
  "counting handler request args s =
     (case s of (n, w) \<Rightarrow>
      (case handler request args w of (out, w') \<Rightarrow> (out, Suc n, w')))"

section \<open>The reference handler and worker (the espresso example)\<close>

text \<open>The constants of Go's package time, in nanoseconds.\<close>

definition Nanosecond :: int where "Nanosecond = 1"
definition Microsecond :: int where "Microsecond = 1000 * Nanosecond"
definition Millisecond :: int where "Millisecond = 1000 * Microsecond"
definition Second :: int where "Second = 1000 * Millisecond"
definition Minute :: int where "Minute = 60 * Second"
definition Hour :: int where "Hour = 60 * Minute"

text \<open>What \<^verbatim>\<open>%d\<close> prints for an integer: its decimal digits, after a minus sign
  when it is negative.\<close>

definition digit :: "nat \<Rightarrow> char" where
  "digit d = ''0123456789'' ! d"

fun formatNat :: "nat \<Rightarrow> string" where
  "formatNat n =
     (if 10 \<le> n then formatNat (n div 10) @ [digit (n mod 10)] else [digit n])"

declare formatNat.simps [simp del]

definition formatInt :: "int \<Rightarrow> string" where
  "formatInt i = (if 0 \<le> i then formatNat (nat i) else CHR ''-'' # formatNat (nat (- i)))"

text \<open>What \<^verbatim>\<open>%T\<close> prints for a value of type \<^verbatim>\<open>any\<close>.\<close>

fun typeName :: "dyn \<Rightarrow> string" where
  "typeName DynNil = ''<nil>''"
| "typeName (DynString x) = ''string''"
| "typeName (DynInt i) = ''int''"
| "typeName (DynStrings xs) = ''[]string''"
| "typeName (DynMap m) = ''map[string]interface {}''"
| "typeName (DynOther n) = n"

text \<open>
  The two-valued type assertions \<^verbatim>\<open>v.(map[string]any)\<close> and \<^verbatim>\<open>v.(string)\<close>, which give
  the zero value and \<open>False\<close> when the dynamic type differs, and the two-valued index
  \<^verbatim>\<open>m[k]\<close>, which on a missing key (and on the nil map) gives nil and \<open>False\<close>.
\<close>

fun assertMap :: "dyn \<Rightarrow> (string \<times> dyn) list \<times> bool" where
  "assertMap (DynMap m) = (m, True)"
| "assertMap v = ([], False)"

fun assertString :: "dyn \<Rightarrow> string \<times> bool" where
  "assertString (DynString x) = (x, True)"
| "assertString v = ('''', False)"

definition mapIndex :: "(string \<times> dyn) list \<Rightarrow> string \<Rightarrow> dyn \<times> bool" where
  "mapIndex m k = (case map_of m k of Some v \<Rightarrow> (v, True) | None \<Rightarrow> (DynNil, False))"

record EspressoArgs =
  Roast :: string
  Recipient :: string
  Shots :: int
  Temperature :: real
  Preinfusion :: bool

datatype ElicitationResponseAction =
    ElicitationResponseActionAccept
  | ElicitationResponseActionDecline
  | ElicitationResponseActionCancel
  | ElicitationResponseActionOther string

text \<open>
  The elicitation request and its result; the field \<^verbatim>\<open>Content\<close> of the result is
  \<open>ElicitationContent\<close> here, \<open>Content\<close> being a field of \<open>CallToolResult\<close>.
\<close>

record ElicitationRequest =
  Message :: string
  RequestedSchema :: dyn

record ElicitationResult =
  Action :: ElicitationResponseAction
  ElicitationContent :: dyn

datatype TaskOption = WithTaskTTL int

text \<open>
  The Task Manager is an external collaborator: its five operations are the fields of
  a record, each a function on the manager's state \<open>'s\<close>. \<open>CreateTask\<close> returns the
  task identifier and the initial handle (the task's context is not modelled: its
  cancellation is an input of the worker); \<open>CompleteTask\<close> takes a pointer to the
  payload interface.
\<close>

record 's TaskServer =
  CreateTask :: "TaskOption list \<Rightarrow> 's \<Rightarrow> (string \<times> CreateTaskResult) \<times> 's"
  FailTask :: "string \<Rightarrow> error \<Rightarrow> 's \<Rightarrow> error option \<times> 's"
  CompleteTask :: "string \<Rightarrow> TaskPayloadResult option \<Rightarrow> 's \<Rightarrow> error option \<times> 's"
  CancelTask :: "string \<Rightarrow> 's \<Rightarrow> error option \<times> 's"
  RequestInput ::
    "string \<Rightarrow> ElicitationRequest \<Rightarrow> 's \<Rightarrow> (ElicitationResult \<times> error option) \<times> 's"

text \<open>
  A Task Manager made to keep, beside its state, the list of the calls it received, in
  order.
\<close>

datatype event =
    CreateTaskCalled "TaskOption list"
  | FailTaskCalled string error
  | CompleteTaskCalled string "TaskPayloadResult option"
  | CancelTaskCalled string
  | RequestInputCalled string ElicitationRequest

definition recording :: "'s TaskServer \<Rightarrow> ('s \<times> event list) TaskServer" where
  "recording srv =
     \<lparr>CreateTask = (\<lambda>opts (s, evs).
        case CreateTask srv opts s of (r, s') \<Rightarrow> (r, s', evs @ [CreateTaskCalled opts])),
      FailTask = (\<lambda>taskId err (s, evs).
        case FailTask srv taskId err s of
          (r, s') \<Rightarrow> (r, s', evs @ [FailTaskCalled taskId err])),
      CompleteTask = (\<lambda>taskId payload (s, evs).
        case CompleteTask srv taskId payload s of
          (r, s') \<Rightarrow> (r, s', evs @ [CompleteTaskCalled taskId payload])),
      CancelTask = (\<lambda>taskId (s, evs).
        case CancelTask srv taskId s of (r, s') \<Rightarrow> (r, s', evs @ [CancelTaskCalled taskId])),
      RequestInput = (\<lambda>taskId request (s, evs).
        case RequestInput srv taskId request s of
          (r, s') \<Rightarrow> (r, s', evs @ [RequestInputCalled taskId request]))\<rparr>"

text \<open>
  Modelled from the spec: the method \<^verbatim>\<open>ToAnyResult\<close> of the initial handle is declared
  outside the files at hand; it gives the handle as the Task Handle case of the Result
  Variant.
\<close>

definition ToAnyResult :: "CreateTaskResult \<Rightarrow> AnyToolResult option" where
  "ToAnyResult result = Some (AnyCreateTaskResult result)"

text \<open>
  \<^verbatim>\<open>espressoHandler\<close>. Beside its two results it returns the worker it has started with
  \<^verbatim>\<open>go makeEspresso(taskCtx, args, taskId)\<close>, if any, and the Task Manager's state.
\<close>

definition espressoHandler ::
  "'s TaskServer \<Rightarrow> 'q \<Rightarrow> EspressoArgs \<Rightarrow> 's
     \<Rightarrow> any_out \<times> (EspressoArgs \<times> string) option \<times> 's" where
  "espressoHandler mcpServer request args s =
     (case CreateTask mcpServer [WithTaskTTL (1 * Hour)] s of
        ((taskId, result), s1) \<Rightarrow>
          (if Roast args = '''' then
             (case FailTask mcpServer taskId (Errorf ''recipient is required'') s1 of
                (Some err, s2) \<Rightarrow> ((None, Some err), None, s2)
              | (None, s2) \<Rightarrow> ((ToAnyResult result, None), None, s2))
           else ((ToAnyResult result, None), Some (args, taskId), s1)))"

text \<open>
  \<^verbatim>\<open>makeEspresso\<close>. The sleeps are not modelled; \<open>cancelled\<close> says whether the task's
  context is done before the timer of the \<^verbatim>\<open>select\<close> fires. \<^verbatim>\<open>log.Printf\<close> has no
  effect here; \<^verbatim>\<open>log.Fatalf\<close> ends the process, which is the result \<open>Exited\<close>.
\<close>

datatype exit = Returned | Exited

definition espressoRequest :: ElicitationRequest where
  "espressoRequest =
     \<lparr>Message = ''I need to more information to prepare your espresso drink.'',
      RequestedSchema = DynMap
        [(''type'', DynString ''object''),
         (''properties'', DynMap
            [(''customerName'', DynMap
                [(''type'', DynString ''string''),
                 (''description'', DynString ''What is the customer's name?''),
                 (''minLength'', DynInt 1)])]),
         (''required'', DynStrings [''customerName''])]\<rparr>"

text \<open>Lines 171 to 186: the shot is pulled and the task completed.\<close>

definition pullShot :: "'s TaskServer \<Rightarrow> EspressoArgs \<Rightarrow> string \<Rightarrow> 's \<Rightarrow> exit \<times> 's" where
  "pullShot mcpServer args taskId s =
     (case CompleteTask mcpServer taskId
             (Some (PayloadCallToolResult
                \<lparr>Content = [TextContent (formatInt (Shots args) @ '' shots of ''
                               @ Roast args @ '' for '' @ Recipient args @ ''!'')],
                 StructuredContent = DynNil, IsError = False\<rparr>)) s of
        (Some err, s') \<Rightarrow> (Exited, snd (FailTask mcpServer taskId err s'))
      | (None, s') \<Rightarrow> (Returned, s'))"

definition makeEspresso ::
  "'s TaskServer \<Rightarrow> bool \<Rightarrow> EspressoArgs \<Rightarrow> string \<Rightarrow> 's \<Rightarrow> exit \<times> 's" where
  "makeEspresso mcpServer cancelled args taskId s =
     (if cancelled then (Returned, s)
      else if Recipient args = '''' then
        (case RequestInput mcpServer taskId espressoRequest s of
           ((result, Some err), s1) \<Rightarrow> (Exited, snd (FailTask mcpServer taskId err s1))
         | ((result, None), s1) \<Rightarrow>
             (if Action result = ElicitationResponseActionCancel
              then (Returned, snd (CancelTask mcpServer taskId s1))
              else
               (let args1 = (if Action result = ElicitationResponseActionDecline
                             then args\<lparr>Recipient := ''anonymous customer''\<rparr> else args);
                    (data, ok) = assertMap (ElicitationContent result);
                    s2 = (if \<not> ok
                          then snd (FailTask mcpServer taskId
                            (Errorf (''unexpected input result type: expected map[string]any, got ''
                                     @ typeName (ElicitationContent result))) s1)
                          else s1);
                    (customerName, exists) = mapIndex data ''customerName'';
                    s3 = (if \<not> exists
                          then snd (FailTask mcpServer taskId
                            (Errorf (''unexpected input result type: expected map[string]any, got ''
                                     @ typeName (ElicitationContent result))) s2)
                          else s2);
                    (recipient, ok') = assertString customerName;
                    args2 = args1\<lparr>Recipient := recipient\<rparr>;
                    s4 = (if \<not> ok'
                          then snd (FailTask mcpServer taskId
                            (Errorf (''unexpected input result type: expected string, got ''
                                     @ typeName (ElicitationContent result))) s3)
                          else s3)
                in pullShot mcpServer args2 taskId s4)))
      else pullShot mcpServer args taskId s)"

section \<open>Example handlers and middleware\<close>

definition handle0 :: CreateTaskResult where
  "handle0 = \<lparr>TaskId = ''task-1'', Status = ''working''\<rparr>"

definition reply0 :: CallToolResult where
  "reply0 = \<lparr>Content = [TextContent ''done''], StructuredContent = DynNil, IsError = False\<rparr>"

text \<open>A handler that defers request 0 to a task and answers every other request at once.\<close>

definition task_on_zero :: "(nat, unit) TaskToolHandlerFunc" where
  "task_on_zero request w =
     (if request = 0 then ((Some (AnyCreateTaskResult handle0), None), w)
      else ((Some (AnyCallToolResult reply0), None), w))"

text \<open>A handler that answers every request at once, and counts its calls in the world.\<close>

definition always_reply :: "(nat, nat) TaskToolHandlerFunc" where
  "always_reply request w = ((Some (AnyCallToolResult reply0), None), Suc w)"

text \<open>A middleware that calls the wrapped handler and then fails with an error of its own.\<close>

definition failing_after :: "(nat, unit) ToolHandlerMiddleware" where
  "failing_after request w =
     CallNext request w (\<lambda>out w'. Return (None, Some (Errorf ''rate limited'')) w')"

text \<open>A middleware that calls the wrapped handler and replaces its result.\<close>

definition overwriting :: "(nat, unit) ToolHandlerMiddleware" where
  "overwriting request w = CallNext request w (\<lambda>out w'. Return (Some reply0, None) w')"

text \<open>
  A Task Manager without state on which every operation succeeds, and which answers
  every elicitation with the given action and content.
\<close>

definition quiet_server :: "ElicitationResponseAction \<Rightarrow> dyn \<Rightarrow> unit TaskServer" where
  "quiet_server action content =
     \<lparr>CreateTask = (\<lambda>opts s. ((''task-1'', handle0), s)),
      FailTask = (\<lambda>taskId err s. (None, s)),
      CompleteTask = (\<lambda>taskId payload s. (None, s)),
      CancelTask = (\<lambda>taskId s. (None, s)),
      RequestInput = (\<lambda>taskId request s.
         ((\<lparr>Action = action, ElicitationContent = content\<rparr>, None), s))\<rparr>"

text \<open>An order without a recipient, and an order without a roast.\<close>

definition order0 :: EspressoArgs where
  "order0 =
     \<lparr>Roast = ''dark'', Recipient = '''', Shots = 2, Temperature = 93, Preinfusion = False\<rparr>"

definition order1 :: EspressoArgs where
  "order1 =
     \<lparr>Roast = '''', Recipient = ''Ada'', Shots = 2, Temperature = 93, Preinfusion = False\<rparr>"

text \<open>A binder that rejects every request.\<close>

definition rejecting :: "nat \<Rightarrow> error + EspressoArgs" where
  "rejecting request = Inl (Errorf ''roast must be a string'')"

fun message_of :: "error \<Rightarrow> string" where
  "message_of (Errorf m) = m"
| "message_of e = ''invalid''"

section \<open>Properties of the validators\<close>

text \<open>
  C7. \<open>ValidateAnyToolResult\<close> returns no error exactly on a non-nil pointer to an
  interface holding one of the two legal shapes, a \<^verbatim>\<open>CallToolResult\<close> or a
  \<^verbatim>\<open>CreateTaskResult\<close>; the nil pointer and a value of any other shape give
  \<open>ErrInvalidToolResult\<close>.
\<close>

theorem ValidateAnyToolResult_legal_shapes:
  "ValidateAnyToolResult (Some (AnyCallToolResult r)) = None
   \<and> ValidateAnyToolResult (Some (AnyCreateTaskResult t)) = None
   \<and> ValidateAnyToolResult None = Some ErrInvalidToolResult
   \<and> ValidateAnyToolResult p =
       (if \<exists>v. p = Some v \<and> (isImmediateResult v \<or> isTaskHandle v) then None
        else Some ErrInvalidToolResult)"
proof -
  have "ValidateAnyToolResult p =
       (if \<exists>v. p = Some v \<and> (isImmediateResult v \<or> isTaskHandle v) then None
        else Some ErrInvalidToolResult)"
  proof (cases p)
    case None
    then show ?thesis by simp
  next
    case (Some v)
    then show ?thesis by (cases v) simp_all
  qed
  then show ?thesis by simp
qed

text \<open>
  C8. \<open>ValidateTaskPayload\<close> returns no error only on the Immediate Result shape of a
  payload, which the type switch takes to be a pointer \<^verbatim>\<open>*CallToolResult\<close>; every other
  shape gives \<open>ErrInvalidResultPayload\<close>: a \<^verbatim>\<open>CreateTaskResult\<close> by value or by
  pointer, the nil interface, and also a \<^verbatim>\<open>CallToolResult\<close> held by value.
\<close>

theorem ValidateTaskPayload_only_immediate:
  "ValidateTaskPayload v =
     (if isImmediatePayload v then None else Some ErrInvalidResultPayload)
   \<and> ValidateTaskPayload (PayloadCreateTaskResult t) = Some ErrInvalidResultPayload
   \<and> ValidateTaskPayload (PayloadCreateTaskResultPtr pt) = Some ErrInvalidResultPayload
   \<and> ValidateTaskPayload PayloadNilInterface = Some ErrInvalidResultPayload
   \<and> ValidateTaskPayload (PayloadCallToolResult r) = Some ErrInvalidResultPayload"
  by (cases v) simp_all

section \<open>Properties of the middleware adaptor\<close>

lemma task_handles_single: "task_handles [x] = [] \<or> (\<exists>t. task_handles [x] = [t])"
  by (cases "[x]" rule: task_handles.cases) auto

lemma task_handles_append: "task_handles (xs @ ys) = task_handles xs @ task_handles ys"
  by (induction xs rule: task_handles.induct) simp_all

lemma legacyNext_slot:
  "legacyNext next q (p, w) = (out, p', w') \<Longrightarrow>
   p' = (case task_handles [fst (next q w)] of [] \<Rightarrow> p | t # ts \<Rightarrow> Some t)"
  by (auto simp: legacyNext_def split: prod.splits option.splits AnyToolResult.splits)

text \<open>
  After the legacy chain has run, the slot holds the last Task Handle that \<open>next\<close>
  returned during the run, and what it held before when there was none.
\<close>

lemma slot_after_run:
  "apply_middleware (legacyNext next) run p = (out, p', w') \<Longrightarrow>
   p' = (if task_handles (next_returns next run p) = [] then p
         else Some (last (task_handles (next_returns next run p))))"
proof (induction run arbitrary: p)
  case (Return x1 x2)
  then show ?case by simp
next
  case (CallNext q w k)
  obtain o1 p1 w1 where h: "legacyNext next q (p, w) = (o1, p1, w1)"
    by (cases "legacyNext next q (p, w)") auto
  from CallNext.prems h
  have r: "apply_middleware (legacyNext next) (k o1 w1) p1 = (out, p', w')"
    by simp
  have ih: "p' = (if task_handles (next_returns next (k o1 w1) p1) = [] then p1
         else Some (last (task_handles (next_returns next (k o1 w1) p1))))"
    by (rule CallNext.IH[OF rangeI rangeI r])
  have p1: "p1 = (case task_handles [fst (next q w)] of [] \<Rightarrow> p | t # ts \<Rightarrow> Some t)"
    by (rule legacyNext_slot[OF h])
  have nr: "next_returns next (CallNext q w k) p
              = [fst (next q w)] @ next_returns next (k o1 w1) p1"
    using h by simp
  show ?case unfolding nr task_handles_append using ih p1
    using task_handles_single[of "fst (next q w)"] by auto
qed

text \<open>
  C10. An error from the adapted legacy chain takes precedence: whenever the chain
  returns a non-nil error, the adaptor returns a nil result with that error, whatever
  the slot holds after the chain has run, a Task Handle stored during this very
  invocation included.
\<close>

theorem adaptor_legacy_error_precedence:
  assumes "apply_middleware (legacyNext next) (targetMiddleware request w) taskResult
             = ((result, Some e), taskResult', w')"
  shows "NewTaskToolHandlerMiddlewareAdaptor targetMiddleware next request (taskResult, w)
           = ((None, Some e), taskResult', w')"
  using assms by (simp add: NewTaskToolHandlerMiddlewareAdaptor_def)

theorem adaptor_legacy_error_precedence_witness:
  "apply_middleware (legacyNext task_on_zero) (failing_after 0 ()) newTaskResult
     = ((None, Some (Errorf ''rate limited'')), Some handle0, ())
   \<and> NewTaskToolHandlerMiddlewareAdaptor failing_after task_on_zero 0 (newTaskResult, ())
     = ((None, Some (Errorf ''rate limited'')), Some handle0, ())"
proof -
  have h: "apply_middleware (legacyNext task_on_zero) (failing_after 0 ()) newTaskResult
     = ((None, Some (Errorf ''rate limited'')), Some handle0, ())"
    by (simp add: failing_after_def legacyNext_def task_on_zero_def newTaskResult_def)
  from adaptor_legacy_error_precedence[of task_on_zero failing_after 0 "()", OF h] h
  show ?thesis by simp
qed

text \<open>
  C1, as stated, fails: the inner handler returns the Task Handle \<open>handle0\<close> and no
  error, the legacy middleware then returns an error of its own, and the adaptor's
  output is that error with a nil result, not the Task Handle.
\<close>

theorem adaptor_error_hides_task_handle:
  "next_returns task_on_zero (failing_after 0 ()) newTaskResult
     = [(Some (AnyCreateTaskResult handle0), None)]
   \<and> fst (NewTaskToolHandlerMiddlewareAdaptor failing_after task_on_zero 0 (newTaskResult, ()))
     = (None, Some (Errorf ''rate limited''))"
  by (simp add: failing_after_def legacyNext_def task_on_zero_def newTaskResult_def
      NewTaskToolHandlerMiddlewareAdaptor_def)

text \<open>
  C1, amended. For every invocation in which the legacy chain returns a nil error and
  the inner handler has returned a Task Handle with a nil error (at least once during
  the invocation), the adaptor's output is that Task Handle (the last one, should the
  middleware have called the inner handler several times) with a nil error, whatever
  result the legacy chain returned.
\<close>

theorem adaptor_returns_captured_task_handle:
  assumes "apply_middleware (legacyNext next) (targetMiddleware request w) taskResult
             = ((result, None), taskResult', w')"
    and "task_handles (next_returns next (targetMiddleware request w) taskResult) \<noteq> []"
  shows "NewTaskToolHandlerMiddlewareAdaptor targetMiddleware next request (taskResult, w)
           = ((Some (AnyCreateTaskResult
                 (last (task_handles
                    (next_returns next (targetMiddleware request w) taskResult)))),
               None), taskResult', w')"
  using assms slot_after_run[OF assms(1)]
  by (simp add: NewTaskToolHandlerMiddlewareAdaptor_def)

theorem adaptor_returns_captured_task_handle_witness:
  "NewTaskToolHandlerMiddlewareAdaptor overwriting task_on_zero 0 (newTaskResult, ())
     = ((Some (AnyCreateTaskResult handle0), None), Some handle0, ())"
proof -
  have h: "apply_middleware (legacyNext task_on_zero) (overwriting 0 ()) newTaskResult
     = ((Some reply0, None), Some handle0, ())"
    by (simp add: overwriting_def legacyNext_def task_on_zero_def newTaskResult_def)
  have t: "next_returns task_on_zero (overwriting 0 ()) newTaskResult
     = [(Some (AnyCreateTaskResult handle0), None)]"
    by (simp add: overwriting_def legacyNext_def task_on_zero_def newTaskResult_def)
  have n: "task_handles (next_returns task_on_zero (overwriting 0 ()) newTaskResult) \<noteq> []"
    by (simp add: t)
  from adaptor_returns_captured_task_handle[of task_on_zero overwriting 0 "()", OF h n]
  show ?thesis by (simp add: t)
qed

text \<open>
  C2 fails on the code. The slot is allocated when the handler is wrapped, not in each
  call, and nothing resets it: called on request 0 (a Task Handle) and then on request
  1, for which the inner handler returns the Immediate Result \<open>reply0\<close>, the adapted
  handler returns the Task Handle of the first call both times.
\<close>

theorem adaptor_slot_shared_across_invocations:
  "invoke_all (NewTaskToolHandlerMiddlewareAdaptor pass_through task_on_zero) [0, 1]
       (newTaskResult, ())
     = ([(Some (AnyCreateTaskResult handle0), None),
         (Some (AnyCreateTaskResult handle0), None)], Some handle0, ())
   \<and> fst (task_on_zero 1 ()) = (Some (AnyCallToolResult reply0), None)"
  by (simp add: pass_through_def legacyNext_def task_on_zero_def newTaskResult_def
      NewTaskToolHandlerMiddlewareAdaptor_def)

text \<open>
  More generally: once the slot holds a handle, a call through the pass-through
  middleware whose inner handler returns an Immediate Result returns the stored handle
  and keeps it.
\<close>

lemma adaptor_stale_slot_wins:
  assumes "next q w = ((Some (AnyCallToolResult r), None), w')"
  shows "NewTaskToolHandlerMiddlewareAdaptor pass_through next q (Some t, w)
           = ((Some (AnyCreateTaskResult t), None), Some t, w')"
  using assms
  by (simp add: pass_through_def legacyNext_def NewTaskToolHandlerMiddlewareAdaptor_def)

lemma adaptor_immediate_step:
  assumes "next q w = ((Some (AnyCallToolResult r), None), w')"
  shows "NewTaskToolHandlerMiddlewareAdaptor pass_through next q (None, w)
           = (fst (next q w), None, snd (next q w))"
  using assms
  by (simp add: pass_through_def legacyNext_def NewTaskToolHandlerMiddlewareAdaptor_def)

text \<open>
  C3. Let the inner handler return an Immediate Result and a nil error on every call.
  Wrapped with the adaptor and the pass-through middleware, and called on any sequence
  of requests from the moment it is built, it returns on every request what the inner
  handler called directly returns, leaves the world as the inner handler leaves it,
  and never writes the slot.
\<close>

theorem adaptor_pass_through_transparent:
  assumes "\<forall>q w. \<exists>r w'. next q w = ((Some (AnyCallToolResult r), None), w')"
  shows "invoke_all (NewTaskToolHandlerMiddlewareAdaptor pass_through next) qs
             (newTaskResult, w)
          = (case invoke_all next qs w of (outs, w') \<Rightarrow> (outs, newTaskResult, w'))"
proof (induction qs arbitrary: w)
  case Nil
  then show ?case by simp
next
  case (Cons q qs)
  from assms obtain r w' where n: "next q w = ((Some (AnyCallToolResult r), None), w')"
    by blast
  have "NewTaskToolHandlerMiddlewareAdaptor pass_through next q (newTaskResult, w)
          = ((Some (AnyCallToolResult r), None), newTaskResult, w')"
    using adaptor_immediate_step[of "next" q w, OF n] n by (simp add: newTaskResult_def)
  then show ?case using n Cons.IH[of w'] by (simp split: prod.splits)
qed

theorem adaptor_pass_through_transparent_witness:
  "invoke_all (NewTaskToolHandlerMiddlewareAdaptor pass_through always_reply) [1, 2]
       (newTaskResult, 0)
     = ([(Some (AnyCallToolResult reply0), None), (Some (AnyCallToolResult reply0), None)],
        newTaskResult, Suc (Suc 0))"
proof -
  have h: "\<forall>q w. \<exists>r w'. always_reply q w = ((Some (AnyCallToolResult r), None), w')"
    by (simp add: always_reply_def)
  have "invoke_all (NewTaskToolHandlerMiddlewareAdaptor pass_through always_reply) [1, 2]
       (newTaskResult, 0)
     = (case invoke_all always_reply [1, 2] 0 of (outs, w') \<Rightarrow> (outs, newTaskResult, w'))"
    by (rule adaptor_pass_through_transparent[OF h])
  also have "\<dots> = ([(Some (AnyCallToolResult reply0), None),
        (Some (AnyCallToolResult reply0), None)], newTaskResult, Suc (Suc 0))"
    by (simp add: always_reply_def)
  finally show ?thesis .
qed

section \<open>Properties of the hook adaptor\<close>

text \<open>
  C5. Delivered a Task Handle, the adapted after-hook does not call the legacy
  after-call hook: whatever that hook is, the state of the hooks is unchanged, and the
  recording hook has recorded nothing. Delivered an Immediate Result, it calls the
  legacy hook exactly once, with the same id, message and result: the state is that
  of one call, and the recording hook has recorded exactly this call.
\<close>

theorem after_hook_only_for_immediate:
  "NewTaskToolAfterHookAdaptor afterCallTool i m (Some (AnyCreateTaskResult t)) h = h
   \<and> NewTaskToolAfterHookAdaptor afterCallTool i m (Some (AnyCallToolResult r)) h
       = afterCallTool i m r h
   \<and> NewTaskToolAfterHookAdaptor record_call i m (Some (AnyCreateTaskResult t)) calls = calls
   \<and> NewTaskToolAfterHookAdaptor record_call i m (Some (AnyCallToolResult r)) calls
       = calls @ [(i, m, r)]"
  by (simp add: NewTaskToolAfterHookAdaptor_def record_call_def)

section \<open>Properties of the typed handler binder\<close>

text \<open>
  C6. When the arguments of a request fail to bind, the handlers built by
  \<open>NewTypedToolHandler\<close> and \<open>NewTypedTaskToolHandler\<close> return, with a nil error, the
  Immediate Result flagged as an error whose text is \<^verbatim>\<open>failed to bind arguments: \<close>
  followed by the text of the binding error; the result does not depend on the wrapped
  handler, the world is unchanged, and a wrapped handler that counts its calls has
  counted none.
\<close>

theorem typed_handler_binding_failure:
  assumes "BindArguments request = Inl err"
  shows "NewTypedToolHandler BindArguments Error handler request w
           = ((Some (NewToolResultError (''failed to bind arguments: '' @ Error err)), None), w)
       \<and> NewTypedTaskToolHandler BindArguments Error taskHandler request w
           = ((Some (AnyCallToolResult
                 (NewToolResultError (''failed to bind arguments: '' @ Error err))), None), w)
       \<and> IsError (NewToolResultError (''failed to bind arguments: '' @ Error err))
       \<and> Content (NewToolResultError (''failed to bind arguments: '' @ Error err))
            = [TextContent (''failed to bind arguments: '' @ Error err)]
       \<and> snd (NewTypedToolHandler BindArguments Error (counting handler) request (n, w))
            = (n, w)
       \<and> snd (NewTypedTaskToolHandler BindArguments Error (counting taskHandler) request (n, w))
            = (n, w)"
  using assms
  by (simp add: NewTypedToolHandler_def NewTypedTaskToolHandler_def NewToolResultError_def)

theorem typed_handler_binding_failure_witness:
  "NewTypedToolHandler rejecting message_of
       (counting (\<lambda>q a w. ((Some reply0, None), w))) 7 (0, ())
     = ((Some \<lparr>Content = [TextContent ''failed to bind arguments: roast must be a string''],
               StructuredContent = DynNil, IsError = True\<rparr>, None), 0, ())
   \<and> NewTypedTaskToolHandler rejecting message_of
       (counting (\<lambda>q a w. ((Some (AnyCreateTaskResult handle0), None), w))) 7 (0, ())
     = ((Some (AnyCallToolResult
          \<lparr>Content = [TextContent ''failed to bind arguments: roast must be a string''],
           StructuredContent = DynNil, IsError = True\<rparr>), None), 0, ())"
proof -
  have h: "rejecting 7 = Inl (Errorf ''roast must be a string'')"
    by (simp add: rejecting_def)
  from typed_handler_binding_failure[of rejecting 7 "Errorf ''roast must be a string''"
        message_of "counting (\<lambda>q a w. ((Some reply0, None), w))" "(0, ())"
        "counting (\<lambda>q a w. ((Some (AnyCreateTaskResult handle0), None), w))", OF h]
  show ?thesis by (simp add: NewToolResultError_def)
qed

section \<open>Properties of the reference handler and worker\<close>

text \<open>
  C9. Called with arguments whose roast, the required field, is empty,
  \<open>espressoHandler\<close> calls the Task Manager exactly twice: \<open>CreateTask\<close> with a TTL of
  \<^verbatim>\<open>1*time.Hour\<close>, then \<open>FailTask\<close> on the task just created with the error
  \<^verbatim>\<open>recipient is required\<close>. It starts no worker. It returns the Task Handle that
  \<open>CreateTask\<close> gave with a nil error, unless \<open>FailTask\<close> itself failed, in which
  case it returns a nil result with the error of \<open>FailTask\<close>.
\<close>

theorem espressoHandler_missing_roast:
  assumes "Roast args = ''''"
    and "CreateTask srv [WithTaskTTL (1 * Hour)] s = ((taskId, result), s1)"
    and "FailTask srv taskId (Errorf ''recipient is required'') s1 = (failed, s2)"
  shows "espressoHandler (recording srv) request args (s, [])
           = ((case failed of
                 None \<Rightarrow> (Some (AnyCreateTaskResult result), None)
               | Some err \<Rightarrow> (None, Some err)),
              None,
              s2, [CreateTaskCalled [WithTaskTTL (1 * Hour)],
                   FailTaskCalled taskId (Errorf ''recipient is required'')])"
  using assms
  by (simp add: espressoHandler_def recording_def ToAnyResult_def split: option.splits)

theorem espressoHandler_missing_roast_witness:
  "espressoHandler (recording (quiet_server ElicitationResponseActionAccept DynNil)) (0::nat)
       order1 ((), [])
     = ((Some (AnyCreateTaskResult handle0), None), None, (),
        [CreateTaskCalled [WithTaskTTL 3600000000000],
         FailTaskCalled ''task-1'' (Errorf ''recipient is required'')])"
proof -
  have a: "Roast order1 = ''''" by (simp add: order1_def)
  have b: "CreateTask (quiet_server ElicitationResponseActionAccept DynNil)
             [WithTaskTTL (1 * Hour)] () = ((''task-1'', handle0), ())"
    by (simp add: quiet_server_def)
  have c: "FailTask (quiet_server ElicitationResponseActionAccept DynNil) ''task-1''
             (Errorf ''recipient is required'') () = (None, ())"
    by (simp add: quiet_server_def)
  from espressoHandler_missing_roast[OF a b c, of "0::nat"]
  show ?thesis
    by (simp add: Hour_def Minute_def Second_def Millisecond_def Microsecond_def Nanosecond_def)
qed

text \<open>
  C4 fails on the code. The worker is started for an order without a recipient, the
  context is not cancelled, and the elicitation is declined with no content. Line 146
  sets the recipient to \<^verbatim>\<open>anonymous customer\<close>, but the \<^verbatim>\<open>switch\<close> then falls out into
  the reading of the content (lines 150 to 168), written for the accepted case: each
  of its three checks fails and calls \<open>FailTask\<close>, none returns, and line 163
  overwrites the recipient with the empty string. \<open>CompleteTask\<close> is then called with
  a text that has no recipient.
\<close>

theorem makeEspresso_decline_fails_task:
  "makeEspresso (recording (quiet_server ElicitationResponseActionDecline DynNil)) False
       order0 ''task-1'' ((), [])
     = (Returned, (),
        [RequestInputCalled ''task-1'' espressoRequest,
         FailTaskCalled ''task-1''
           (Errorf ''unexpected input result type: expected map[string]any, got <nil>''),
         FailTaskCalled ''task-1''
           (Errorf ''unexpected input result type: expected map[string]any, got <nil>''),
         FailTaskCalled ''task-1''
           (Errorf ''unexpected input result type: expected string, got <nil>''),
         CompleteTaskCalled ''task-1''
           (Some (PayloadCallToolResult
              \<lparr>Content = [TextContent ''2 shots of dark for !''],
               StructuredContent = DynNil, IsError = False\<rparr>))])"
  by (simp add: makeEspresso_def recording_def quiet_server_def order0_def
      pullShot_def mapIndex_def formatInt_def formatNat.simps[of 2] digit_def)

text \<open>
  More generally, whatever content comes with a declined elicitation: the recipient of
  the shot is what the reading of the content gives (the name the content carries, or
  the empty string), never the default for its own sake.
\<close>

lemma makeEspresso_decline_recipient:
  assumes "Recipient args = ''''"
    and "RequestInput srv taskId espressoRequest s
           = ((\<lparr>Action = ElicitationResponseActionDecline, ElicitationContent = c\<rparr>, None), s1)"
  shows "\<exists>s4. makeEspresso srv False args taskId s
           = pullShot srv
               (args\<lparr>Recipient :=
                  fst (assertString (fst (mapIndex (fst (assertMap c)) ''customerName'')))\<rparr>)
               taskId s4"
  using assms by (auto simp: makeEspresso_def Let_def case_prod_beta)

end
